theory Spec2Isabelle
  imports Complex_Main "HOL-Library.Product_Lexorder"
begin

section \<open>The Python extension module of the MRPT index (mrptmodule.cpp)\<close>

text \<open>
  The module wraps the C++ class \<open>Mrpt\<close> (header \<open>Mrpt.h\<close>) for Python. The
  functions embedded here are those of \<open>mrptmodule.cpp\<close>. The class \<open>Mrpt\<close> itself is
  declared in another file; wherever the module calls one of its methods, the method is a
  parameter of the embedded function.
\<close>

subsection \<open>Errors and NumPy arrays\<close>

text \<open>
  A function of the module either returns a Python object, or returns \<open>NULL\<close> with a
  Python exception set (\<open>PyErr_SetString\<close>), or has no outcome at the level of Python:
  it reads or writes outside an array, uses a \<open>NULL\<close> pointer, overflows an \<open>int\<close>, or
  a C++ exception that nothing catches ends the process. All of the last kind are the one
  value \<open>Undefined_Behaviour\<close>. The exceptions of \<open>PyArg_ParseTuple\<close> are left out: the
  arguments of the embedded functions have the types its format strings ask for.
\<close>

datatype error =
    PyExc_IOError string
  | PyExc_ValueError string
  | Undefined_Behaviour

text \<open>The two element types the module asks NumPy for.\<close>

datatype npy_type = PyArray_FLOAT | PyArray_INT

text \<open>
  A NumPy array: its element type, its shape and its cells in storage order.
\<close>

record 'a ndarray =
  type_num :: npy_type
  shape :: "nat list"
  cells :: "'a list"

subsection \<open>\<open>vector_to_nparray\<close>\<close>

text \<open>
  \<^verbatim>\<open>
  template<typename T>
  static PyArrayObject* vector_to_nparray(const std::vector<T>& vec, int type_num = PyArray_FLOAT){
     if( !vec.empty() ){
         size_t nRows = vec.size();
         npy_intp dims[1] = {nRows};
         PyArrayObject* vec_array = (PyArrayObject *) PyArray_SimpleNew(1, dims, type_num);
         T *vec_array_pointer = (T*) PyArray_DATA(vec_array);
         std::copy(vec.begin(),vec.end(),vec_array_pointer);
         return vec_array;
     } else {
        npy_intp dims[1] = {0};
        return (PyArrayObject*) PyArray_ZEROS(1, dims, PyArray_FLOAT, 0);
     }
  }
  \<close>
\<close>

definition vector_to_nparray :: "'a list \<Rightarrow> npy_type \<Rightarrow> 'a ndarray" where
  "vector_to_nparray vec tn =
     (if vec \<noteq> [] then \<lparr>type_num = tn, shape = [length vec], cells = vec\<rparr>
      else \<lparr>type_num = PyArray_FLOAT, shape = [0], cells = []\<rparr>)"

subsection \<open>\<open>filter_leaves_by_votes\<close>\<close>

text \<open>
  \<^verbatim>\<open>
  VectorXi votes = VectorXi::Zero(num_leaves);
  std::vector<int> voted_leaves;
  int *leaves = reinterpret_cast<int *>(PyArray_DATA(l));
  for(int i=0;i<num_leaves;i++,leaves++) {
      if(++votes(*leaves) == votes_required){
          voted_leaves.push_back(*leaves);
      }
  }
  PyArrayObject *final_leaves = vector_to_nparray(voted_leaves,PyArray_INT);
  return final_leaves;
  \<close>
  The loop walks the pointer \<open>leaves\<close> over the first \<open>num_leaves\<close> cells of the input
  array; \<open>vote_loop\<close> is the loop over those cells, with the vector \<open>votes\<close> and the
  vector \<open>voted_leaves\<close> as its state. The access \<open>votes(*leaves)\<close> is not guarded by the
  module: an index outside the vector is undefined behaviour. A vote count never exceeds
  \<open>num_leaves\<close>, an \<open>int\<close>, so the increment cannot overflow and the counts are
  unbounded integers here.
\<close>

fun vote_loop :: "int list \<Rightarrow> int \<Rightarrow> int list \<Rightarrow> int list \<Rightarrow> error + int list" where
  "vote_loop [] votes_required votes voted_leaves = Inr voted_leaves"
| "vote_loop (leaf # leaves) votes_required votes voted_leaves =
     (if 0 \<le> leaf \<and> leaf < int (length votes) then
        let v = votes ! nat leaf + 1 in
        vote_loop leaves votes_required (votes[nat leaf := v])
          (if v = votes_required then voted_leaves @ [leaf] else voted_leaves)
      else Inl Undefined_Behaviour)"

text \<open>
  \<open>VectorXi::Zero\<close> of a negative size and a read past the end of the input array (an
  array shorter than \<open>num_leaves\<close>) are undefined as well.
\<close>

definition filter_leaves_by_votes :: "int list \<Rightarrow> int \<Rightarrow> int \<Rightarrow> error + int ndarray" where
  "filter_leaves_by_votes l num_leaves votes_required =
     (if num_leaves < 0 \<or> int (length l) < num_leaves then Inl Undefined_Behaviour
      else
        case vote_loop (take (nat num_leaves) l) votes_required
               (replicate (nat num_leaves) 0) [] of
          Inl e \<Rightarrow> Inl e
        | Inr voted_leaves \<Rightarrow> Inr (vector_to_nparray voted_leaves PyArray_INT))"

subsection \<open>The index object\<close>

text \<open>
  The module moves \<open>float\<close> values between buffers and never computes with them; they are
  real numbers here.
  \<^verbatim>\<open>
  typedef struct {
      PyObject_HEAD
      Mrpt *ptr;
      float *data;
      bool mmap;
      int n;
      int dim;
  } mrptIndex;
  \<close>
  The fields carry the prefix \<open>ix_\<close>. The type \<open>'m\<close> is the class \<open>Mrpt\<close>; a pointer is
  \<open>None\<close> when it is \<open>NULL\<close>. A variable \<open>dim\<close> of the source is \<open>dimen\<close> here.
\<close>

type_synonym float = real

record 'm mrptIndex =
  ix_ptr :: "'m option"
  ix_data :: "float list option"
  ix_mmap :: bool
  ix_n :: int
  ix_dim :: int

text \<open>
  \<open>Mrpt_new\<close>: \<open>tp_alloc\<close> hands out zeroed memory, and the two pointers are set to
  \<open>NULL\<close>.
\<close>

definition Mrpt_new :: "'m mrptIndex" where
  "Mrpt_new = \<lparr>ix_ptr = None, ix_data = None, ix_mmap = False, ix_n = 0, ix_dim = 0\<rparr>"

subsection \<open>\<open>Mrpt_init\<close>\<close>

text \<open>
  The calls into the operating system are parameters: \<open>os_stat\<close> gives the size of a file
  in bytes or the message of \<open>errno\<close>; \<open>os_fopen\<close> gives the \<open>float\<close>s that \<open>fread\<close> can
  deliver from a file, or \<open>None\<close> when the file cannot be opened; \<open>os_mmap\<close> gives the
  mapping of a number of bytes of a file, or \<open>None\<close> for \<open>MAP_FAILED\<close>.
\<close>

record os =
  os_stat :: "string \<Rightarrow> string + int"
  os_fopen :: "string \<Rightarrow> float list option"
  os_mmap :: "string \<Rightarrow> int \<Rightarrow> float list option"

text \<open>
  \<^verbatim>\<open>
  float *read_memory(char *file, int n, int dim) {
      float *data = new float[n * dim];
      FILE *fd;
      if ((fd = fopen(file, "rb")) == NULL)
          return NULL;
      int read = fread(data, sizeof(float), n * dim, fd);
      if (read != n * dim)
          return NULL;
      fclose(fd);
      return data;
  }
  \<close>
  The product \<open>n * dim\<close> is an \<open>int\<close>: beyond \<open>2^31 - 1\<close> it overflows, and \<open>new\<close> of a
  negative size throws.
\<close>

definition read_memory :: "os \<Rightarrow> string \<Rightarrow> int \<Rightarrow> int \<Rightarrow> error + float list option" where
  "read_memory os file n dimen =
     (if n * dimen < 0 \<or> 2 ^ 31 \<le> n * dimen then Inl Undefined_Behaviour
      else
        case os_fopen os file of
          None \<Rightarrow> Inr None
        | Some fl \<Rightarrow>
            let read = min (int (length fl)) (n * dimen) in
            if read \<noteq> n * dimen then Inr None else Inr (Some (take (nat (n * dimen)) fl)))"

text \<open>
  \<^verbatim>\<open>
  float *read_mmap(char *file, int n, int dim) {
      FILE *fd;
      if ((fd = fopen(file, "rb")) == NULL)
          return NULL;
      float *data;
      if ((data = reinterpret_cast<float *> (
              mmap(0, n * dim * sizeof(float), PROT_READ,
              MAP_SHARED | MAP_POPULATE, fileno(fd), 0))) == MAP_FAILED) {
              return NULL;
      }
      fclose(fd);
      return data;
  }
  \<close>
  The length \<open>n * dim * sizeof(float)\<close> is the \<open>int\<close> \<open>n * dim\<close> converted to \<open>size_t\<close>
  (64 bits) and multiplied by 4 there.
\<close>

definition read_mmap :: "os \<Rightarrow> string \<Rightarrow> int \<Rightarrow> int \<Rightarrow> error + float list option" where
  "read_mmap os file n dimen =
     (case os_fopen os file of
        None \<Rightarrow> Inr None
      | Some fl \<Rightarrow>
          if n * dimen < - (2 ^ 31) \<or> 2 ^ 31 \<le> n * dimen then Inl Undefined_Behaviour
          else
            case os_mmap os file ((n * dimen * 4) mod 2 ^ 64) of
              None \<Rightarrow> Inr None
            | Some data \<Rightarrow> Inr (Some data))"

text \<open>The first argument of the constructor: a path (a Python 2 string) or an array.\<close>

datatype py_data = PyString string | PyArray "float ndarray"

text \<open>
  \<^verbatim>\<open>
  static int Mrpt_init(mrptIndex *self, PyObject *args) {
      PyObject *py_data;
      int depth, n_trees, n, dim, mmap;
      float density;
      if (!PyArg_ParseTuple(args, "Oiiiifi", &py_data, &n, &dim, &depth, &n_trees, &density, &mmap))
          return -1;
      float *data;
      if (PyString_Check(py_data)) {
          char *file = PyString_AsString(py_data);
          struct stat sb;
          if (stat(file, &sb) != 0) {
              PyErr_SetString(PyExc_IOError, strerror(errno));
              return -1;
          }
          if (sb.st_size != static_cast<unsigned>(sizeof(float) * dim * n)) {
              PyErr_SetString(PyExc_ValueError, "Size of the input is not N x dim");
              return -1;
          }
          data = mmap ? read_mmap(file, n, dim) : read_memory(file, n, dim);
          if (data == NULL) {
              PyErr_SetString(PyExc_IOError, "Unable to read data from file or allocate memory for it");
              return -1;
          }
          self->mmap = mmap;
          self->data = data;
      } else {
          data = reinterpret_cast<float *>(PyArray_DATA(py_data));
      }
      self->n = n;
      self->dim = dim;
      const Eigen::Map<const MatrixXf> *X = new Eigen::Map<const MatrixXf>(data, dim, n);
      self->ptr = new Mrpt(X, n_trees, depth, density);
      return 0;
  }
  \<close>
  This is the branch for Python 2, which the file is written for. The constructor of
  \<open>Mrpt\<close> is the parameter \<open>Mrpt_ctor\<close>, applied to the matrix (its buffer, \<open>dim\<close> and
  \<open>n\<close>), \<open>n_trees\<close>, \<open>depth\<close> and \<open>density\<close>; it gives \<open>None\<close> when it throws, which
  nothing in the module catches. \<open>Inr\<close> is the return value 0, with the object as the
  function leaves it. The size test compares \<open>st_size\<close> with the product
  \<open>sizeof(float) * dim * n\<close>, computed in \<open>size_t\<close> and cut to the 32 bits of
  \<open>unsigned\<close>.
\<close>

definition Mrpt_init ::
  "os \<Rightarrow> (float list \<Rightarrow> int \<Rightarrow> int \<Rightarrow> int \<Rightarrow> int \<Rightarrow> float \<Rightarrow> 'm option) \<Rightarrow>
   'm mrptIndex \<Rightarrow> py_data \<Rightarrow> int \<Rightarrow> int \<Rightarrow> int \<Rightarrow> int \<Rightarrow> float \<Rightarrow> int \<Rightarrow>
   error + 'm mrptIndex" where
  "Mrpt_init os Mrpt_ctor self py_data n dimen depth n_trees density mmap =
     (let finish = (\<lambda>self data.
            case Mrpt_ctor data dimen n n_trees depth density of
              None \<Rightarrow> Inl Undefined_Behaviour
            | Some m \<Rightarrow> Inr (self\<lparr>ix_n := n, ix_dim := dimen, ix_ptr := Some m\<rparr>))
      in
      case py_data of
        PyString file \<Rightarrow>
          (case os_stat os file of
             Inl msg \<Rightarrow> Inl (PyExc_IOError msg)
           | Inr st_size \<Rightarrow>
               if st_size \<noteq> (4 * dimen * n) mod 2 ^ 32
               then Inl (PyExc_ValueError ''Size of the input is not N x dim'')
               else
                 case (if mmap \<noteq> 0 then read_mmap os file n dimen
                       else read_memory os file n dimen) of
                   Inl e \<Rightarrow> Inl e
                 | Inr None \<Rightarrow> Inl (PyExc_IOError
                     ''Unable to read data from file or allocate memory for it'')
                 | Inr (Some data) \<Rightarrow>
                     finish (self\<lparr>ix_mmap := mmap \<noteq> 0, ix_data := Some data\<rparr>) data)
      | PyArray arr \<Rightarrow> finish self (cells arr))"

subsection \<open>Output buffers\<close>

text \<open>
  \<open>PyArray_SimpleNew(nd, dims, type_num)\<close> makes an array whose cells are not
  initialised: a cell is \<open>None\<close> until something is stored in it. With a negative
  dimension NumPy returns \<open>NULL\<close>.
\<close>

definition PyArray_SimpleNew :: "int list \<Rightarrow> npy_type \<Rightarrow> 'a option ndarray option" where
  "PyArray_SimpleNew dims tn =
     (if list_ex (\<lambda>d. d < 0) dims then None
      else Some \<lparr>type_num = tn, shape = map nat dims,
                 cells = replicate (prod_list (map nat dims)) None\<rparr>)"

text \<open>
  The methods of \<open>Mrpt\<close> that answer a query get pointers \<open>out\<close> and \<open>out_distances\<close>
  into such arrays and return nothing. What a method does with them is a pair of lists: the
  values it stores into the cells \<open>out[0], out[1], ...\<close> and into the cells
  \<open>out_distances[0], ...\<close>; a method that does not return (an assertion of Eigen, an
  exception) is \<open>None\<close>. \<open>store buf off ws\<close> is the buffer after the values \<open>ws\<close> are
  stored from cell \<open>off\<close> on, and \<open>None\<close> when they do not fit in the buffer.
\<close>

definition store :: "'a option list \<Rightarrow> int \<Rightarrow> 'a list \<Rightarrow> 'a option list option" where
  "store buf off ws =
     (if 0 \<le> off \<and> nat off + length ws \<le> length buf
      then Some (take (nat off) buf @ map Some ws @ drop (nat off + length ws) buf)
      else None)"

text \<open>What a query function returns: the array \<open>nearest\<close>, or the tuple of it and \<open>distances\<close>.\<close>

datatype py_object =
    Array "int option ndarray"
  | Tuple "int option ndarray" "float option ndarray"

subsection \<open>\<open>ann\<close>, \<open>ann_from_leaves\<close> and \<open>exact_search\<close>\<close>

text \<open>
  The three functions share their text but for the method they call. For a query array of
  one dimension (\<open>ann\<close>, lines 288 to 308):
  \<^verbatim>\<open>
  dim = PyArray_DIM(v, 0);
  npy_intp dims[1] = {k};
  nearest = PyArray_SimpleNew(1, dims, NPY_INT);
  int *outdata = reinterpret_cast<int *>(PyArray_DATA(nearest));
  if (return_distances) {
      PyObject *distances = PyArray_SimpleNew(1, dims, NPY_FLOAT32);
      float *out_distances = reinterpret_cast<float *>(PyArray_DATA(distances));
      self->ptr->query(Eigen::Map<VectorXf>(indata, dim), k, elect, outdata, out_distances);
      PyObject *out_tuple = PyTuple_New(2);
      PyTuple_SetItem(out_tuple, 0, nearest);
      PyTuple_SetItem(out_tuple, 1, distances);
      return out_tuple;
  } else {
      self->ptr->query(Eigen::Map<VectorXf>(indata, dim), k, elect, outdata);
      return nearest;
  }
  \<close>
  \<open>one_query call k return_distances\<close> is this text, \<open>call\<close> being the call of the
  method: its argument tells whether \<open>out_distances\<close> is passed. \<open>PyArray_DATA\<close> of
  \<open>NULL\<close> is undefined.
\<close>

definition one_query ::
  "(bool \<Rightarrow> (int list \<times> float list) option) \<Rightarrow> int \<Rightarrow> int \<Rightarrow> error + py_object" where
  "one_query call k return_distances =
     (case PyArray_SimpleNew [k] PyArray_INT of
        None \<Rightarrow> Inl Undefined_Behaviour
      | Some nearest \<Rightarrow>
          if return_distances \<noteq> 0 then
            (case PyArray_SimpleNew [k] PyArray_FLOAT of
               None \<Rightarrow> Inl Undefined_Behaviour
             | Some distances \<Rightarrow>
                 (case call True of
                    None \<Rightarrow> Inl Undefined_Behaviour
                  | Some (ws, ds) \<Rightarrow>
                      (case (store (cells nearest) 0 ws, store (cells distances) 0 ds) of
                         (Some c, Some d) \<Rightarrow>
                           Inr (Tuple (nearest\<lparr>cells := c\<rparr>) (distances\<lparr>cells := d\<rparr>))
                       | _ \<Rightarrow> Inl Undefined_Behaviour)))
          else
            (case call False of
               None \<Rightarrow> Inl Undefined_Behaviour
             | Some (ws, ds) \<Rightarrow>
                 (case store (cells nearest) 0 ws of
                    Some c \<Rightarrow> Inr (Array (nearest\<lparr>cells := c\<rparr>))
                  | None \<Rightarrow> Inl Undefined_Behaviour)))"

text \<open>
  For a query array of more dimensions (\<open>ann\<close>, lines 310 to 336):
  \<^verbatim>\<open>
  n = PyArray_DIM(v, 0);
  dim = PyArray_DIM(v, 1);
  npy_intp dims[2] = {n, k};
  nearest = PyArray_SimpleNew(2, dims, NPY_INT);
  int *outdata = reinterpret_cast<int *>(PyArray_DATA(nearest));
  if (return_distances) {
      npy_intp dims[2] = {n, k};
      PyObject *distances = PyArray_SimpleNew(2, dims, NPY_FLOAT32);
      float *distances_out = reinterpret_cast<float *>(PyArray_DATA(distances));
      for (int i = 0; i < n; ++i) {
          self->ptr->query(Eigen::Map<VectorXf>(indata + i * dim, dim),
                           k, elect, outdata + i * k, distances_out + i * k);
      }
      ... return out_tuple;
  } else {
      for (int i = 0; i < n; ++i) {
          self->ptr->query(Eigen::Map<VectorXf>(indata + i * dim, dim),
                           k, elect, outdata + i * k);
      }
      return nearest;
  }
  \<close>
  \<open>rows_loop\<close> is the loop, over the row numbers \<open>i\<close>, with the two buffers as its state
  (the second one is not touched when \<open>out_distances\<close> is not passed); \<open>call i\<close> is the
  call of the method for row \<open>i\<close>. The offsets \<open>i * k\<close> and \<open>i * dim\<close> are \<open>int\<close>s and
  overflow from \<open>2^31\<close> on; the dimensions of the query array themselves are taken to fit
  an \<open>int\<close>.
\<close>

fun rows_loop ::
  "(nat \<Rightarrow> bool \<Rightarrow> (int list \<times> float list) option) \<Rightarrow> int \<Rightarrow> bool \<Rightarrow> nat list \<Rightarrow>
   int option list \<Rightarrow> float option list \<Rightarrow> (int option list \<times> float option list) option" where
  "rows_loop call k wd [] outdata distances_out = Some (outdata, distances_out)"
| "rows_loop call k wd (i # is) outdata distances_out =
     (if 2 ^ 31 \<le> int i * k then None
      else
        case call i wd of
          None \<Rightarrow> None
        | Some (ws, ds) \<Rightarrow>
            (case store outdata (int i * k) ws of
               None \<Rightarrow> None
             | Some c \<Rightarrow>
                 if wd then
                   (case store distances_out (int i * k) ds of
                      None \<Rightarrow> None
                    | Some d \<Rightarrow> rows_loop call k wd is c d)
                 else rows_loop call k wd is c distances_out))"

definition rows_query ::
  "(nat \<Rightarrow> bool \<Rightarrow> (int list \<times> float list) option) \<Rightarrow> nat \<Rightarrow> int \<Rightarrow> int \<Rightarrow>
   error + py_object" where
  "rows_query call n k return_distances =
     (case PyArray_SimpleNew [int n, k] PyArray_INT of
        None \<Rightarrow> Inl Undefined_Behaviour
      | Some nearest \<Rightarrow>
          if return_distances \<noteq> 0 then
            (case PyArray_SimpleNew [int n, k] PyArray_FLOAT of
               None \<Rightarrow> Inl Undefined_Behaviour
             | Some distances \<Rightarrow>
                 (case rows_loop call k True [0..<n] (cells nearest) (cells distances) of
                    None \<Rightarrow> Inl Undefined_Behaviour
                  | Some (c, d) \<Rightarrow>
                      Inr (Tuple (nearest\<lparr>cells := c\<rparr>) (distances\<lparr>cells := d\<rparr>))))
          else
            (case rows_loop call k False [0..<n] (cells nearest) [] of
               None \<Rightarrow> Inl Undefined_Behaviour
             | Some (c, d) \<Rightarrow> Inr (Array (nearest\<lparr>cells := c\<rparr>))))"

text \<open>
  \<open>ann\<close>: the method is \<open>Mrpt::query(q, k, elect, out, out_distances)\<close>, called through
  \<open>self->ptr\<close>. The length of the query vector is read from the query array,
  \<open>PyArray_DIM(v, 0)\<close> or \<open>PyArray_DIM(v, 1)\<close>; an array of no dimension has neither.
\<close>

definition ann ::
  "('m \<Rightarrow> float list \<Rightarrow> int \<Rightarrow> int \<Rightarrow> bool \<Rightarrow> (int list \<times> float list) option) \<Rightarrow>
   'm mrptIndex \<Rightarrow> float ndarray \<Rightarrow> int \<Rightarrow> int \<Rightarrow> int \<Rightarrow> error + py_object" where
  "ann query self v k elect return_distances =
     (let indata = cells v in
      if length (shape v) = 1 then
        let dimen = shape v ! 0 in
        one_query
          (\<lambda>wd. case ix_ptr self of
                   None \<Rightarrow> None
                 | Some m \<Rightarrow> query m (take dimen indata) k elect wd)
          k return_distances
      else if length (shape v) = 0 then Inl Undefined_Behaviour
      else
        let n = shape v ! 0; dimen = shape v ! 1 in
        rows_query
          (\<lambda>i wd. if 2 ^ 31 \<le> int i * int dimen then None
                   else
                     case ix_ptr self of
                       None \<Rightarrow> None
                     | Some m \<Rightarrow> query m (take dimen (drop (i * dimen) indata)) k elect wd)
          n k return_distances)"

text \<open>
  \<open>ann_from_leaves\<close> (lines 247 to 276) has the text of the one-dimensional branch only;
  the method is \<open>Mrpt::query_from_leaves(q, leaves, num_leaves, k, elect, out,
  out_distances)\<close>.
\<close>

definition ann_from_leaves ::
  "('m \<Rightarrow> float list \<Rightarrow> int list \<Rightarrow> int \<Rightarrow> int \<Rightarrow> int \<Rightarrow> bool \<Rightarrow>
      (int list \<times> float list) option) \<Rightarrow>
   'm mrptIndex \<Rightarrow> float ndarray \<Rightarrow> int list \<Rightarrow> int \<Rightarrow> int \<Rightarrow> int \<Rightarrow> int \<Rightarrow>
   error + py_object" where
  "ann_from_leaves query_from_leaves self v l num_leaves k elect return_distances =
     (let indata = cells v; leaves = l in
      if length (shape v) = 0 then Inl Undefined_Behaviour
      else
        let dimen = shape v ! 0 in
        one_query
          (\<lambda>wd. case ix_ptr self of
                   None \<Rightarrow> None
                 | Some m \<Rightarrow>
                     query_from_leaves m (take dimen indata) leaves num_leaves k elect wd)
          k return_distances)"

text \<open>
  \<open>exact_search\<close> (lines 359 to 421) first fills a vector with the numbers of all points,
  \<^verbatim>\<open>
  VectorXi idx(self->n);
  std::iota(idx.data(), idx.data() + self->n, 0);
  \<close>
  and then has the text of \<open>ann\<close> with the method
  \<open>Mrpt::exact_knn(q, k, idx, self->n, out, out_distances)\<close>. A vector of negative size
  is undefined.
\<close>

definition exact_search ::
  "('m \<Rightarrow> float list \<Rightarrow> int \<Rightarrow> int list \<Rightarrow> int \<Rightarrow> bool \<Rightarrow> (int list \<times> float list) option) \<Rightarrow>
   'm mrptIndex \<Rightarrow> float ndarray \<Rightarrow> int \<Rightarrow> int \<Rightarrow> error + py_object" where
  "exact_search exact_knn self v k return_distances =
     (let indata = cells v in
      if ix_n self < 0 then Inl Undefined_Behaviour
      else
        let idx = map int [0..<nat (ix_n self)] in
        if length (shape v) = 1 then
          let dimen = shape v ! 0 in
          one_query
            (\<lambda>wd. case ix_ptr self of
                     None \<Rightarrow> None
                   | Some m \<Rightarrow> exact_knn m (take dimen indata) k idx (ix_n self) wd)
            k return_distances
        else if length (shape v) = 0 then Inl Undefined_Behaviour
        else
          let n = shape v ! 0; dimen = shape v ! 1 in
          rows_query
            (\<lambda>i wd. if 2 ^ 31 \<le> int i * int dimen then None
                     else
                       case ix_ptr self of
                         None \<Rightarrow> None
                       | Some m \<Rightarrow>
                           exact_knn m (take dimen (drop (i * dimen) indata)) k idx
                             (ix_n self) wd)
            n k return_distances)"

subsection \<open>The exact distance engine, from the specification\<close>

text \<open>
  Modelled from the spec: the class \<open>Mrpt\<close> (\<open>Mrpt.h\<close> is not among the sources), as far
  as the exact search needs it. The object holds the matrix the constructor is given; in
  \<open>Mrpt_init\<close> that is the map \<open>Eigen::Map<const MatrixXf>(data, dim, n)\<close>, a matrix in
  column-major order whose column \<open>i\<close>, the cells \<open>i * dim, ..., i * dim + dim - 1\<close> of the
  buffer, is the point \<open>i\<close>. The spec's Dataset View is \<open>{ base, n, dim, stride }\<close> over a
  contiguous matrix of \<open>n\<close> points.
\<close>

record Mrpt_spec =
  X_data :: "float list"
  X_dim :: int
  X_n :: int

text \<open>Modelled from the spec: the point with index \<open>i\<close> of the Dataset View.\<close>

definition point :: "Mrpt_spec \<Rightarrow> int \<Rightarrow> float list" where
  "point X i = take (nat (X_dim X)) (drop (nat (i * X_dim X)) (X_data X))"

text \<open>
  Modelled from the spec: the "squared Euclidean distance between \<open>query_vector\<close> and each
  referenced point" of section 4.6, over the reals.
\<close>

definition sq_distance :: "float list \<Rightarrow> float list \<Rightarrow> float" where
  "sq_distance q p = (\<Sum>(a, b)\<leftarrow>zip q p. (a - b)\<^sup>2)"

text \<open>
  Modelled from the spec: \<open>Mrpt::exact_knn\<close>, which \<open>Mrpt.h\<close> would define. Section 4.6:
  "Computes squared Euclidean distance between \<open>query_vector\<close> and each referenced point
  (distance returned to the caller may be the square root, but comparisons and selection
  must use a consistent metric); performs a partial selection (e.g., a bounded min-heap or
  partial sort) to obtain the \<open>k\<close> smallest; ties broken by ascending point index." The
  selection is a partial sort by the pair of distance and index, in lexicographic order;
  the distances returned are the squared ones. The arguments are those of the call in
  \<open>exact_search\<close>: the query, \<open>k\<close>, the vector of candidate indices, their number, and
  whether \<open>out_distances\<close> is passed.
\<close>

definition exact_knn_spec ::
  "Mrpt_spec \<Rightarrow> float list \<Rightarrow> int \<Rightarrow> int list \<Rightarrow> int \<Rightarrow> bool \<Rightarrow> (int list \<times> float list) option" where
  "exact_knn_spec X q k candidate_indices n_candidates want_distances =
     (let candidates = take (nat n_candidates) candidate_indices;
          ranked = take (nat k) (sort_key (\<lambda>i. (sq_distance q (point X i), i)) candidates)
      in Some (ranked,
               if want_distances then map (\<lambda>i. sq_distance q (point X i)) ranked else []))"

text \<open>The array of indices of a result, alone or first in the tuple.\<close>

definition nearest_of :: "py_object \<Rightarrow> int option ndarray" where
  "nearest_of r = (case r of Array nearest \<Rightarrow> nearest | Tuple nearest distances \<Rightarrow> nearest)"

section \<open>Properties\<close>

subsection \<open>The vote filter\<close>

lemma vote_loop_sound:
  "\<forall>x\<in>set xs. 0 \<le> x \<and> x < int (length votes) \<Longrightarrow>
   \<exists>r. vote_loop xs t votes voted = Inr (voted @ r) \<and> distinct r \<and>
       set r = {x \<in> set xs. votes ! nat x < t \<and> t \<le> votes ! nat x + int (count_list xs x)}"
proof (induction xs arbitrary: votes voted)
  case Nil
  then show ?case by simp
next
  case (Cons x xs)
  let ?v = "votes ! nat x + 1"
  let ?votes = "votes[nat x := ?v]"
  let ?voted = "if ?v = t then voted @ [x] else voted"
  from Cons.prems have xr: "0 \<le> x" "x < int (length votes)" by auto
  have rng: "\<forall>y\<in>set xs. 0 \<le> y \<and> y < int (length ?votes)" using Cons.prems by simp
  from Cons.IH [OF rng, of ?voted] obtain r where
    r: "vote_loop xs t ?votes ?voted = Inr (?voted @ r)" "distinct r"
       "set r = {y \<in> set xs. ?votes ! nat y < t \<and> t \<le> ?votes ! nat y + int (count_list xs y)}"
    by blast
  have upd: "?votes ! nat y = (if y = x then ?v else votes ! nat y)" if "0 \<le> y" for y
    using that xr by (auto simp: nth_list_update)
  have nonneg: "0 \<le> y" if "y \<in> set xs" for y using that Cons.prems by auto
  let ?r = "(if ?v = t then [x] else []) @ r"
  have 1: "vote_loop (x # xs) t votes voted = Inr (voted @ ?r)"
    using xr r(1) by (simp add: Let_def)
  have xnotin: "?v = t \<Longrightarrow> x \<notin> set r"
    using r(3) upd[OF xr(1)] by auto
  have 2: "distinct ?r" using r(2) xnotin by auto
  have 3: "set ?r = {y \<in> set (x # xs). votes ! nat y < t \<and> t \<le> votes ! nat y + int (count_list (x # xs) y)}"
  proof (intro set_eqI iffI)
    fix y assume "y \<in> set ?r"
    then show "y \<in> {y \<in> set (x # xs). votes ! nat y < t \<and> t \<le> votes ! nat y + int (count_list (x # xs) y)}"
      using r(3) upd nonneg xr by (auto split: if_splits)
  next
    fix y assume a: "y \<in> {y \<in> set (x # xs). votes ! nat y < t \<and> t \<le> votes ! nat y + int (count_list (x # xs) y)}"
    show "y \<in> set ?r"
    proof (cases "y = x")
      case True
      show ?thesis
      proof (cases "?v = t")
        case True then show ?thesis using \<open>y = x\<close> by simp
      next
        case False
        with a \<open>y = x\<close> have "?v < t" "t \<le> ?v + int (count_list xs x)" by auto
        then have "count_list xs x \<noteq> 0" by auto
        then have "x \<in> set xs" using count_list_0_iff by metis
        then show ?thesis using r(3) upd[OF xr(1)] \<open>?v < t\<close> \<open>t \<le> ?v + int (count_list xs x)\<close> \<open>y = x\<close> by auto
      qed
    next
      case False
      with a have "y \<in> set xs" by auto
      then show ?thesis using a False r(3) upd[OF nonneg] by auto
    qed
  qed
  from 1 2 3 show ?case by blast
qed


lemma vote_loop_undefined:
  "\<exists>x\<in>set xs. \<not> (0 \<le> x \<and> x < int (length votes)) \<Longrightarrow>
   vote_loop xs t votes voted = Inl Undefined_Behaviour"
  by (induction xs arbitrary: votes voted) (auto simp: Let_def)

lemma vote_loop_positions:
  "\<forall>x\<in>set xs. 0 \<le> x \<and> x < int (length votes) \<Longrightarrow>
   vote_loop xs t votes voted =
     Inr (voted @ map (\<lambda>i. xs ! i)
       (filter (\<lambda>i. votes ! nat (xs ! i) + int (count_list (take (Suc i) xs) (xs ! i)) = t)
          [0..<length xs]))"
proof (induction xs arbitrary: votes voted)
  case Nil
  then show ?case by simp
next
  case (Cons x xs)
  let ?v = "votes ! nat x + 1"
  let ?votes = "votes[nat x := ?v]"
  let ?voted = "if ?v = t then voted @ [x] else voted"
  let ?P = "\<lambda>i. votes ! nat ((x # xs) ! i) +
               int (count_list (take (Suc i) (x # xs)) ((x # xs) ! i)) = t"
  let ?Q = "\<lambda>i. ?votes ! nat (xs ! i) + int (count_list (take (Suc i) xs) (xs ! i)) = t"
  from Cons.prems have xr: "0 \<le> x" "x < int (length votes)" by auto
  have rng: "\<forall>y\<in>set xs. 0 \<le> y \<and> y < int (length ?votes)" using Cons.prems by simp
  have upd: "?votes ! nat y = (if y = x then ?v else votes ! nat y)" if "0 \<le> y" for y
    using that xr by (auto simp: nth_list_update)
  have PQ: "?P (Suc i) = ?Q i" if "i < length xs" for i
  proof -
    from that have "xs ! i \<in> set xs" by simp
    with Cons.prems have "0 \<le> xs ! i" by auto
    from upd [OF this] show ?thesis by auto
  qed
  have split_upt: "[0..<length (x # xs)] = 0 # map Suc [0..<length xs]"
    by (simp add: upt_conv_Cons map_Suc_upt del: upt_Suc)
  have tail: "filter ?P (map Suc [0..<length xs]) = map Suc (filter ?Q [0..<length xs])"
    unfolding filter_map o_def
    by (rule arg_cong [where f = "map Suc"], rule filter_cong) (use PQ in auto)
  have "vote_loop (x # xs) t votes voted = vote_loop xs t ?votes ?voted"
    using xr by (simp add: Let_def)
  also have "\<dots> = Inr (?voted @ map (\<lambda>i. xs ! i) (filter ?Q [0..<length xs]))"
    by (rule Cons.IH [OF rng])
  also have "?voted @ map (\<lambda>i. xs ! i) (filter ?Q [0..<length xs]) =
      voted @ map (\<lambda>i. (x # xs) ! i) (filter ?P [0..<length (x # xs)])"
    unfolding split_upt filter.simps tail by (simp add: o_def)
  finally show ?case .
qed


lemma cells_vector_to_nparray: "cells (vector_to_nparray vec tn) = vec"
  by (simp add: vector_to_nparray_def)

lemma filter_leaves_by_votes_InrD:
  assumes "filter_leaves_by_votes l n t = Inr a"
  shows "0 \<le> n" and "n \<le> int (length l)"
    and "\<forall>x\<in>set (take (nat n) l). 0 \<le> x \<and> x < n"
    and "vote_loop (take (nat n) l) t (replicate (nat n) 0) [] = Inr (cells a)"
    and "a = vector_to_nparray (cells a) PyArray_INT"
proof -
  from assms show n: "0 \<le> n" "n \<le> int (length l)"
    by (auto simp: filter_leaves_by_votes_def split: if_splits)
  show rng: "\<forall>x\<in>set (take (nat n) l). 0 \<le> x \<and> x < n"
  proof (rule ccontr)
    assume "\<not> ?thesis"
    then have "\<exists>x\<in>set (take (nat n) l). \<not> (0 \<le> x \<and> x < int (length (replicate (nat n) (0::int))))"
      using n by auto
    from vote_loop_undefined [OF this]
    show False using assms n by (simp add: filter_leaves_by_votes_def)
  qed
  from assms n obtain r where r: "vote_loop (take (nat n) l) t (replicate (nat n) 0) [] = Inr r"
      "a = vector_to_nparray r PyArray_INT"
    by (auto simp: filter_leaves_by_votes_def split: if_splits sum.splits)
  then show "vote_loop (take (nat n) l) t (replicate (nat n) 0) [] = Inr (cells a)"
      "a = vector_to_nparray (cells a) PyArray_INT"
    by (simp_all add: cells_vector_to_nparray)
qed

lemma filter_leaves_by_votes_set:
  assumes "filter_leaves_by_votes l n t = Inr a"
  shows "distinct (cells a)"
    and "set (cells a) =
      {x \<in> set (take (nat n) l). 0 < t \<and> t \<le> int (count_list (take (nat n) l) x)}"
proof -
  let ?xs = "take (nat n) l" and ?z = "replicate (nat n) (0::int)"
  note D = filter_leaves_by_votes_InrD [OF assms]
  have rng: "\<forall>x\<in>set ?xs. 0 \<le> x \<and> x < int (length ?z)" using D(1,3) by simp
  from vote_loop_sound [OF rng, of t "[]"] D(4)
  have r: "distinct (cells a)"
     "set (cells a) = {x \<in> set ?xs. ?z ! nat x < t \<and> t \<le> ?z ! nat x + int (count_list ?xs x)}"
    by auto
  show "distinct (cells a)" by (rule r(1))
  have z: "?z ! nat x = 0" if "x \<in> set ?xs" for x
    using that D(1,3) by (auto simp: nat_less_iff)
  show "set (cells a) = {x \<in> set ?xs. 0 < t \<and> t \<le> int (count_list ?xs x)}"
    unfolding r(2) using z by auto
qed

lemma filter_leaves_by_votes_total:
  assumes "0 \<le> n" "n \<le> int (length l)" "\<forall>x\<in>set (take (nat n) l). 0 \<le> x \<and> x < n"
  shows "\<exists>a. filter_leaves_by_votes l n t = Inr a"
proof -
  have "\<forall>x\<in>set (take (nat n) l). 0 \<le> x \<and> x < int (length (replicate (nat n) (0::int)))"
    using assms by simp
  from vote_loop_sound [OF this, of t "[]"] show ?thesis
    using assms(1,2) by (auto simp: filter_leaves_by_votes_def)
qed

text \<open>
  Claim C2, as amended. For a fixed input and thresholds \<open>t1 < t2\<close> with \<open>1 \<le> t1\<close> (or with
  \<open>t2 \<le> 0\<close>), the filter succeeds at \<open>t2\<close> whenever it succeeds at \<open>t1\<close>, every candidate
  at \<open>t2\<close> is a candidate at \<open>t1\<close>, and the candidate list at \<open>t2\<close> is not longer.
\<close>

theorem vote_threshold_monotone:
  assumes "filter_leaves_by_votes l n t1 = Inr a1" and "t1 < t2" and "1 \<le> t1 \<or> t2 \<le> 0"
  shows "\<exists>a2. filter_leaves_by_votes l n t2 = Inr a2 \<and>
           set (cells a2) \<subseteq> set (cells a1) \<and> length (cells a2) \<le> length (cells a1)"
proof -
  note D = filter_leaves_by_votes_InrD [OF assms(1)]
  from filter_leaves_by_votes_total [OF D(1,2,3)] obtain a2
    where a2: "filter_leaves_by_votes l n t2 = Inr a2" by blast
  have sub: "set (cells a2) \<subseteq> set (cells a1)"
    unfolding filter_leaves_by_votes_set(2) [OF a2] filter_leaves_by_votes_set(2) [OF assms(1)]
    using assms(2,3) by auto
  have "card (set (cells a2)) \<le> card (set (cells a1))"
    by (rule card_mono [OF _ sub]) simp
  then have "length (cells a2) \<le> length (cells a1)"
    using filter_leaves_by_votes_set(1) [OF a2] filter_leaves_by_votes_set(1) [OF assms(1)]
    by (simp add: distinct_card)
  with a2 sub show ?thesis by blast
qed


text \<open>The theorem at the input \<open>[0, 1, 0, 2, 0, 1]\<close> with thresholds 2 and 3.\<close>

theorem vote_threshold_monotone_witness:
  "filter_leaves_by_votes [0, 1, 0, 2, 0, 1] 6 2 =
     Inr \<lparr>type_num = PyArray_INT, shape = [2], cells = [0, 1]\<rparr> \<and>
   (2::int) < 3 \<and>
   (\<exists>a2. filter_leaves_by_votes [0, 1, 0, 2, 0, 1] 6 3 = Inr a2 \<and>
      set (cells a2) \<subseteq> set (cells \<lparr>type_num = PyArray_INT, shape = [2], cells = [0, 1 :: int]\<rparr>) \<and>
      length (cells a2) \<le> length (cells \<lparr>type_num = PyArray_INT, shape = [2], cells = [0, 1 :: int]\<rparr>))"
proof -
  have e: "filter_leaves_by_votes [0, 1, 0, 2, 0, 1] 6 2 =
     Inr \<lparr>type_num = PyArray_INT, shape = [2], cells = [0, 1]\<rparr>"
    by (simp add: filter_leaves_by_votes_def vector_to_nparray_def)
  have h: "(2::int) < 3" "1 \<le> (2::int) \<or> (3::int) \<le> 0" by simp_all
  from vote_threshold_monotone [OF e h] e h(1) show ?thesis by blast
qed

text \<open>
  Claim C2 as stated, for every pair \<open>t1 < t2\<close>, fails at \<open>t1 = 0\<close>, \<open>t2 = 1\<close>: a count is
  compared after its increment, so it is never 0 and threshold 0 elects nothing, while
  threshold 1 elects the leaf.
\<close>

theorem vote_threshold_monotone_counterexample:
  "(0::int) < 1 \<and>
   filter_leaves_by_votes [0] 1 0 = Inr \<lparr>type_num = PyArray_FLOAT, shape = [0], cells = []\<rparr> \<and>
   filter_leaves_by_votes [0] 1 1 = Inr \<lparr>type_num = PyArray_INT, shape = [1], cells = [0]\<rparr> \<and>
   length ([] :: int list) < length [0 :: int]"
  by (simp add: filter_leaves_by_votes_def vector_to_nparray_def)

text \<open>
  Claim C3, as amended. With threshold 1 the candidates are exactly the ids that occur among
  the first \<open>num_leaves\<close> cells of the input; with a threshold of 0 or below there is no
  candidate at all.
\<close>

theorem vote_threshold_one_or_below:
  assumes "filter_leaves_by_votes l n t = Inr a"
  shows "(t = 1 \<longrightarrow> set (cells a) = set (take (nat n) l)) \<and> (t \<le> 0 \<longrightarrow> cells a = [])"
proof -
  have "0 < count_list xs x" if "x \<in> set xs" for x :: int and xs
    using that count_list_0_iff [of xs x] by auto
  then have "1 \<le> int (count_list xs x)" if "x \<in> set xs" for x :: int and xs
    using that by fastforce
  then show ?thesis
    unfolding set_empty [symmetric] filter_leaves_by_votes_set(2) [OF assms] by auto
qed

text \<open>The theorem at the input \<open>[2, 0, 2, 5]\<close>, three cells read, thresholds 1 and -1.\<close>

theorem vote_threshold_one_or_below_witness:
  "filter_leaves_by_votes [2, 0, 2, 5] 3 1 =
     Inr \<lparr>type_num = PyArray_INT, shape = [2], cells = [2, 0]\<rparr> \<and>
   set [2, 0 :: int] = set (take (nat 3) [2, 0, 2, 5]) \<and>
   filter_leaves_by_votes [2, 0, 2, 5] 3 (- 1) =
     Inr \<lparr>type_num = PyArray_FLOAT, shape = [0], cells = []\<rparr>"
proof -
  have e1: "filter_leaves_by_votes [2, 0, 2, 5] 3 1 =
     Inr \<lparr>type_num = PyArray_INT, shape = [2], cells = [2, 0]\<rparr>"
    by (simp add: filter_leaves_by_votes_def vector_to_nparray_def)
  have e2: "filter_leaves_by_votes [2, 0, 2, 5] 3 (- 1) =
     Inr \<lparr>type_num = PyArray_FLOAT, shape = [0], cells = []\<rparr>"
    by (simp add: filter_leaves_by_votes_def vector_to_nparray_def)
  from vote_threshold_one_or_below [OF e1] vote_threshold_one_or_below [OF e2] e1 e2
  show ?thesis by simp
qed

text \<open>
  Claim C3 as stated fails at threshold 0: leaf 2 occurs in the input and is no candidate.
\<close>

theorem vote_threshold_zero_counterexample:
  "(0::int) \<le> 1 \<and> (2::int) \<in> set [2, 2, 0] \<and>
   filter_leaves_by_votes [2, 2, 0] 3 0 =
     Inr \<lparr>type_num = PyArray_FLOAT, shape = [0], cells = []\<rparr> \<and>
   (2::int) \<notin> set (cells \<lparr>type_num = PyArray_FLOAT, shape = [0], cells = []\<rparr>)"
  by (simp add: filter_leaves_by_votes_def vector_to_nparray_def)

text \<open>
  Claim C4. No id occurs twice in the candidate list, and the list holds, in input order,
  the cell of every position at which the running count of that cell's id (the number of its
  occurrences up to and including the position) equals the threshold. The filter is a
  function of the array, \<open>num_leaves\<close> and \<open>votes_required\<close> alone.
\<close>

theorem candidate_appended_once:
  assumes "filter_leaves_by_votes l n t = Inr a"
  shows "distinct (cells a) \<and>
    cells a = map (\<lambda>i. l ! i)
      (filter (\<lambda>i. int (count_list (take (Suc i) l) (l ! i)) = t) [0..<nat n])"
proof -
  let ?xs = "take (nat n) l" and ?z = "replicate (nat n) (0::int)"
  note D = filter_leaves_by_votes_InrD [OF assms]
  have len: "length ?xs = nat n" using D(1,2) by simp
  have rng: "\<forall>x\<in>set ?xs. 0 \<le> x \<and> x < int (length ?z)" using D(1,3) by simp
  have z: "?z ! nat (?xs ! i) = 0" if "i < nat n" for i
  proof -
    from that len have "?xs ! i \<in> set ?xs" by (metis nth_mem)
    with D(1,3) show ?thesis by (auto simp: nat_less_iff)
  qed
  have "cells a = map (\<lambda>i. ?xs ! i)
      (filter (\<lambda>i. ?z ! nat (?xs ! i) + int (count_list (take (Suc i) ?xs) (?xs ! i)) = t)
         [0..<nat n])"
    using vote_loop_positions [OF rng, of t "[]"] D(4) len by simp
  also have "\<dots> = map (\<lambda>i. l ! i)
      (filter (\<lambda>i. int (count_list (take (Suc i) l) (l ! i)) = t) [0..<nat n])"
  proof -
    have f: "filter (\<lambda>i. ?z ! nat (?xs ! i) + int (count_list (take (Suc i) ?xs) (?xs ! i)) = t)
         [0..<nat n] = filter (\<lambda>i. int (count_list (take (Suc i) l) (l ! i)) = t) [0..<nat n]"
      by (rule filter_cong) (use z in \<open>auto simp: min_def\<close>)
    show ?thesis unfolding f by (rule map_cong) auto
  qed
  finally show ?thesis using filter_leaves_by_votes_set(1) [OF assms] by simp
qed

text \<open>The theorem at the input \<open>[4, 1, 4, 4, 1, 4]\<close> with threshold 2.\<close>

theorem candidate_appended_once_witness:
  "filter_leaves_by_votes [4, 1, 4, 4, 1, 4] 6 2 =
     Inr \<lparr>type_num = PyArray_INT, shape = [2], cells = [4, 1]\<rparr> \<and>
   distinct (cells \<lparr>type_num = PyArray_INT, shape = [2], cells = [4, 1 :: int]\<rparr>) \<and>
   cells \<lparr>type_num = PyArray_INT, shape = [2], cells = [4, 1 :: int]\<rparr> =
     map (\<lambda>i. [4, 1, 4, 4, 1, 4] ! i)
      (filter (\<lambda>i. int (count_list (take (Suc i) [4, 1, 4, 4, 1, 4 :: int])
          ([4, 1, 4, 4, 1, 4] ! i)) = 2) [0..<nat 6])"
proof -
  have e: "filter_leaves_by_votes [4, 1, 4, 4, 1, 4] 6 2 =
     Inr \<lparr>type_num = PyArray_INT, shape = [2], cells = [4, 1]\<rparr>"
    by (simp add: filter_leaves_by_votes_def vector_to_nparray_def)
  from candidate_appended_once [OF e] e show ?thesis by blast
qed

text \<open>
  Claim C9. For an array of exactly \<open>num_leaves\<close> cells: when every leaf id lies in
  \<open>[0, num_leaves)\<close> the loop ends with a result whose cells all occur in the input; when
  some id lies outside, the unchecked access \<open>votes(*leaves)\<close> leaves the vector.
\<close>

theorem vote_access_in_bounds:
  assumes "int (length l) = n"
  shows "((\<forall>x\<in>set l. 0 \<le> x \<and> x < n) \<longrightarrow>
            (\<exists>a. filter_leaves_by_votes l n t = Inr a \<and> set (cells a) \<subseteq> set l)) \<and>
         ((\<exists>x\<in>set l. \<not> (0 \<le> x \<and> x < n)) \<longrightarrow>
            filter_leaves_by_votes l n t = Inl Undefined_Behaviour)"
proof (intro conjI impI)
  assume rng: "\<forall>x\<in>set l. 0 \<le> x \<and> x < n"
  from assms have n: "0 \<le> n" "n \<le> int (length l)" "take (nat n) l = l" by auto
  from filter_leaves_by_votes_total [of n l t] n rng obtain a
    where a: "filter_leaves_by_votes l n t = Inr a" by auto
  from filter_leaves_by_votes_set(2) [OF a] n(3) have "set (cells a) \<subseteq> set l" by auto
  with a show "\<exists>a. filter_leaves_by_votes l n t = Inr a \<and> set (cells a) \<subseteq> set l" by blast
next
  assume "\<exists>x\<in>set l. \<not> (0 \<le> x \<and> x < n)"
  moreover from assms have n: "0 \<le> n" "n \<le> int (length l)" "take (nat n) l = l" by auto
  ultimately have "\<exists>x\<in>set (take (nat n) l).
      \<not> (0 \<le> x \<and> x < int (length (replicate (nat n) (0::int))))" by simp
  from vote_loop_undefined [OF this] n(1,2)
  show "filter_leaves_by_votes l n t = Inl Undefined_Behaviour"
    by (simp add: filter_leaves_by_votes_def)
qed

text \<open>The theorem at \<open>[1, 0, 1]\<close> (in range) and at \<open>[1, 3, 1]\<close> (3 is out of range).\<close>

theorem vote_access_in_bounds_witness:
  "int (length [1, 0, 1 :: int]) = 3 \<and> set [1, 0, 1 :: int] \<subseteq> {0..<3} \<and>
   (\<exists>a. filter_leaves_by_votes [1, 0, 1] 3 2 = Inr a \<and> set (cells a) \<subseteq> set [1, 0, 1]) \<and>
   int (length [1, 3, 1 :: int]) = 3 \<and> (\<exists>x\<in>set [1, 3, 1 :: int]. \<not> (0 \<le> x \<and> x < 3)) \<and>
   filter_leaves_by_votes [1, 3, 1] 3 2 = Inl Undefined_Behaviour"
proof -
  have l: "int (length [1, 0, 1 :: int]) = 3" "int (length [1, 3, 1 :: int]) = 3" by simp_all
  have h1: "\<forall>x\<in>set [1, 0, 1 :: int]. 0 \<le> x \<and> x < 3" by simp
  have h2: "\<exists>x\<in>set [1, 3, 1 :: int]. \<not> (0 \<le> x \<and> x < 3)" by simp
  have s: "set [1, 0, 1 :: int] \<subseteq> {0..<3}" by simp
  from vote_access_in_bounds [OF l(1), of 2] h1
  have r1: "\<exists>a. filter_leaves_by_votes [1, 0, 1] 3 2 = Inr a \<and> set (cells a) \<subseteq> set [1, 0, 1]"
    by (rule conjunct1 [THEN mp])
  from vote_access_in_bounds [OF l(2), of 2] h2
  have r2: "filter_leaves_by_votes [1, 3, 1] 3 2 = Inl Undefined_Behaviour"
    by (rule conjunct2 [THEN mp])
  from l s r1 h2 r2 show ?thesis by (intro conjI)
qed

text \<open>
  Claim C10. An empty vector becomes an array of shape \<open>[0]\<close> of type \<open>PyArray_FLOAT\<close>
  whatever type was asked for, a non-empty one an array of the type asked for; so the
  array the vote filter returns is float-typed when there is no candidate and int-typed
  otherwise.
\<close>

theorem empty_result_is_float:
  "vector_to_nparray ([] :: 'a list) tn = \<lparr>type_num = PyArray_FLOAT, shape = [0], cells = []\<rparr> \<and>
   (vec \<noteq> [] \<longrightarrow> vector_to_nparray vec tn = \<lparr>type_num = tn, shape = [length vec], cells = vec\<rparr>) \<and>
   (filter_leaves_by_votes l n t = Inr a \<longrightarrow>
      type_num a = (if cells a = [] then PyArray_FLOAT else PyArray_INT) \<and>
      shape a = [length (cells a)])"
proof (intro conjI impI)
  assume "filter_leaves_by_votes l n t = Inr a"
  from filter_leaves_by_votes_InrD(5) [OF this]
  have a: "a = vector_to_nparray (cells a) PyArray_INT" .
  show "type_num a = (if cells a = [] then PyArray_FLOAT else PyArray_INT)"
    by (subst a) (simp add: vector_to_nparray_def)
  show "shape a = [length (cells a)]"
    by (subst a) (simp add: vector_to_nparray_def)
qed (simp_all add: vector_to_nparray_def)

text \<open>The theorem at the input \<open>[1, 0]\<close> with threshold 2, which elects nothing.\<close>

theorem empty_result_is_float_witness:
  "vector_to_nparray ([] :: int list) PyArray_INT =
     \<lparr>type_num = PyArray_FLOAT, shape = [0], cells = []\<rparr> \<and>
   [3 :: int] \<noteq> [] \<and>
   vector_to_nparray [3 :: int] PyArray_INT = \<lparr>type_num = PyArray_INT, shape = [length [3 :: int]], cells = [3]\<rparr> \<and>
   filter_leaves_by_votes [1, 0] 2 2 = Inr \<lparr>type_num = PyArray_FLOAT, shape = [0], cells = []\<rparr> \<and>
   type_num \<lparr>type_num = PyArray_FLOAT, shape = [0], cells = [] :: int list\<rparr> = PyArray_FLOAT"
proof -
  let ?a = "\<lparr>type_num = PyArray_FLOAT, shape = [0], cells = [] :: int list\<rparr>"
  have e: "filter_leaves_by_votes [1, 0] 2 2 = Inr ?a"
    by (simp add: filter_leaves_by_votes_def vector_to_nparray_def)
  have c: "cells ?a = []" and v: "[3 :: int] \<noteq> []" by simp_all
  from empty_result_is_float [of PyArray_INT "[3 :: int]" "[1, 0]" 2 2 ?a] e c v
  show ?thesis by simp
qed

subsection \<open>The query functions\<close>

lemma store_0: "length ws \<le> length buf \<Longrightarrow> store buf 0 ws = Some (map Some ws @ drop (length ws) buf)"
  by (simp add: store_def)

lemma one_query_k_cells:
  assumes "0 \<le> k" and "call (rd \<noteq> 0) = Some (ws, ds)"
    and "length ws \<le> nat k" and "rd \<noteq> 0 \<longrightarrow> length ds \<le> nat k"
  shows "one_query call k rd =
     Inr (if rd \<noteq> 0 then
            Tuple \<lparr>type_num = PyArray_INT, shape = [nat k],
                    cells = map Some ws @ replicate (nat k - length ws) None\<rparr>
                  \<lparr>type_num = PyArray_FLOAT, shape = [nat k],
                    cells = map Some ds @ replicate (nat k - length ds) None\<rparr>
          else
            Array \<lparr>type_num = PyArray_INT, shape = [nat k],
                    cells = map Some ws @ replicate (nat k - length ws) None\<rparr>)"
  using assms by (auto simp: one_query_def PyArray_SimpleNew_def store_0)

lemma one_query_no_exception:
  "one_query call k rd \<noteq> Inl (PyExc_IOError s) \<and> one_query call k rd \<noteq> Inl (PyExc_ValueError s)"
  by (auto simp: one_query_def split: option.splits if_splits prod.splits)

lemma rows_query_no_exception:
  "rows_query call n k rd \<noteq> Inl (PyExc_IOError s) \<and> rows_query call n k rd \<noteq> Inl (PyExc_ValueError s)"
  by (auto simp: rows_query_def split: option.splits if_splits prod.splits)


lemma ann_no_exception:
  "ann query self v k elect rd \<noteq> Inl (PyExc_IOError s) \<and>
   ann query self v k elect rd \<noteq> Inl (PyExc_ValueError s)"
  using one_query_no_exception rows_query_no_exception
  by (simp add: ann_def Let_def)

lemma exact_search_no_exception:
  "exact_search exact_knn self v k rd \<noteq> Inl (PyExc_IOError s) \<and>
   exact_search exact_knn self v k rd \<noteq> Inl (PyExc_ValueError s)"
  using one_query_no_exception rows_query_no_exception
  by (simp add: exact_search_def Let_def)

text \<open>
  Claim C5, as amended. The arrays that \<open>ann\<close> and \<open>ann_from_leaves\<close> return for a query
  vector are made with \<open>k\<close> cells before the method of \<open>Mrpt\<close> is called, and stay so:
  when the method stores \<open>c \<le> k\<close> indices (and distances), the result holds them in its
  first \<open>c\<close> cells and has \<open>k - c\<close> more cells that nothing was stored in. No Python
  exception is raised.
\<close>

theorem ann_result_has_k_cells:
  assumes "ix_ptr self = Some m" and "shape v = [d]" and "0 \<le> k"
    and "length ws \<le> nat k" and "rd \<noteq> 0 \<longrightarrow> length ds \<le> nat k"
  shows "(query m (take d (cells v)) k elect (rd \<noteq> 0) = Some (ws, ds) \<longrightarrow>
            ann query self v k elect rd =
              Inr (if rd \<noteq> 0 then
                     Tuple \<lparr>type_num = PyArray_INT, shape = [nat k],
                             cells = map Some ws @ replicate (nat k - length ws) None\<rparr>
                           \<lparr>type_num = PyArray_FLOAT, shape = [nat k],
                             cells = map Some ds @ replicate (nat k - length ds) None\<rparr>
                   else
                     Array \<lparr>type_num = PyArray_INT, shape = [nat k],
                             cells = map Some ws @ replicate (nat k - length ws) None\<rparr>)) \<and>
         (query_from_leaves m (take d (cells v)) l num_leaves k elect (rd \<noteq> 0) = Some (ws, ds) \<longrightarrow>
            ann_from_leaves query_from_leaves self v l num_leaves k elect rd =
              Inr (if rd \<noteq> 0 then
                     Tuple \<lparr>type_num = PyArray_INT, shape = [nat k],
                             cells = map Some ws @ replicate (nat k - length ws) None\<rparr>
                           \<lparr>type_num = PyArray_FLOAT, shape = [nat k],
                             cells = map Some ds @ replicate (nat k - length ds) None\<rparr>
                   else
                     Array \<lparr>type_num = PyArray_INT, shape = [nat k],
                             cells = map Some ws @ replicate (nat k - length ws) None\<rparr>))"
proof (intro conjI impI)
  assume q: "query m (take d (cells v)) k elect (rd \<noteq> 0) = Some (ws, ds)"
  let ?call = "\<lambda>wd. case ix_ptr self of None \<Rightarrow> None
                     | Some m \<Rightarrow> query m (take d (cells v)) k elect wd"
  have c: "?call (rd \<noteq> 0) = Some (ws, ds)" using q assms(1) by simp
  have "ann query self v k elect rd = one_query ?call k rd"
    using assms(2) by (simp add: ann_def)
  with one_query_k_cells [of k ?call rd ws ds, OF assms(3) c assms(4,5)]
  show "ann query self v k elect rd =
              Inr (if rd \<noteq> 0 then
                     Tuple \<lparr>type_num = PyArray_INT, shape = [nat k],
                             cells = map Some ws @ replicate (nat k - length ws) None\<rparr>
                           \<lparr>type_num = PyArray_FLOAT, shape = [nat k],
                             cells = map Some ds @ replicate (nat k - length ds) None\<rparr>
                   else
                     Array \<lparr>type_num = PyArray_INT, shape = [nat k],
                             cells = map Some ws @ replicate (nat k - length ws) None\<rparr>)"
    by simp
next
  assume q: "query_from_leaves m (take d (cells v)) l num_leaves k elect (rd \<noteq> 0) = Some (ws, ds)"
  let ?call = "\<lambda>wd. case ix_ptr self of None \<Rightarrow> None
                     | Some m \<Rightarrow> query_from_leaves m (take d (cells v)) l num_leaves k elect wd"
  have c: "?call (rd \<noteq> 0) = Some (ws, ds)" using q assms(1) by simp
  have "ann_from_leaves query_from_leaves self v l num_leaves k elect rd = one_query ?call k rd"
    using assms(2) by (simp add: ann_from_leaves_def)
  with one_query_k_cells [of k ?call rd ws ds, OF assms(3) c assms(4,5)]
  show "ann_from_leaves query_from_leaves self v l num_leaves k elect rd =
              Inr (if rd \<noteq> 0 then
                     Tuple \<lparr>type_num = PyArray_INT, shape = [nat k],
                             cells = map Some ws @ replicate (nat k - length ws) None\<rparr>
                           \<lparr>type_num = PyArray_FLOAT, shape = [nat k],
                             cells = map Some ds @ replicate (nat k - length ds) None\<rparr>
                   else
                     Array \<lparr>type_num = PyArray_INT, shape = [nat k],
                             cells = map Some ws @ replicate (nat k - length ws) None\<rparr>)"
    by simp
qed

text \<open>The theorem for a method that stores the one index 7, with \<open>k = 3\<close>.\<close>

theorem ann_result_has_k_cells_witness:
  "ann (\<lambda>m q k elect wd. Some ([7], [])) 
      \<lparr>ix_ptr = Some (), ix_data = None, ix_mmap = False, ix_n = 4, ix_dim = 2\<rparr>
      \<lparr>type_num = PyArray_FLOAT, shape = [2], cells = [0, 0]\<rparr> 3 1 0 =
     Inr (Array \<lparr>type_num = PyArray_INT, shape = [3], cells = [Some 7, None, None]\<rparr>) \<and>
   ann_from_leaves (\<lambda>m q l num_leaves k elect wd. Some ([7], []))
      \<lparr>ix_ptr = Some (), ix_data = None, ix_mmap = False, ix_n = 4, ix_dim = 2\<rparr>
      \<lparr>type_num = PyArray_FLOAT, shape = [2], cells = [0, 0]\<rparr> [5, 6] 2 3 1 0 =
     Inr (Array \<lparr>type_num = PyArray_INT, shape = [3], cells = [Some 7, None, None]\<rparr>)"
proof -
  let ?self = "\<lparr>ix_ptr = Some (), ix_data = None, ix_mmap = False, ix_n = 4, ix_dim = 2\<rparr>"
  let ?v = "\<lparr>type_num = PyArray_FLOAT, shape = [2], cells = [0, 0 :: float]\<rparr>"
  have h: "ix_ptr ?self = Some ()" "shape ?v = [2]" "(0::int) \<le> 3"
    "length [7 :: int] \<le> nat 3" "(0::int) \<noteq> 0 \<longrightarrow> length ([] :: float list) \<le> nat 3"
    by simp_all
  from ann_result_has_k_cells [OF h, of "\<lambda>m q k elect wd. Some ([7], [])" 1
      "\<lambda>m q l num_leaves k elect wd. Some ([7], [])" "[5, 6]" 2]
  show ?thesis by (simp add: numeral_3_eq_3)
qed

text \<open>
  Claim C5 as stated fails: with one candidate stored (index 7, distance 0.25) and \<open>k = 3\<close>,
  both returned arrays have three cells, two of them padding.
\<close>

theorem ann_fewer_candidates_counterexample:
  "ann (\<lambda>m q k elect wd. Some ([7], [0.25]))
      \<lparr>ix_ptr = Some (), ix_data = None, ix_mmap = False, ix_n = 9, ix_dim = 2\<rparr>
      \<lparr>type_num = PyArray_FLOAT, shape = [2], cells = [0, 0]\<rparr> 3 1 1 =
     Inr (Tuple \<lparr>type_num = PyArray_INT, shape = [3], cells = [Some 7, None, None]\<rparr>
                \<lparr>type_num = PyArray_FLOAT, shape = [3], cells = [Some 0.25, None, None]\<rparr>) \<and>
   length [7 :: int] < length [Some (7 :: int), None, None]"
  by (simp add: ann_def one_query_def PyArray_SimpleNew_def store_def numeral_2_eq_2)


text \<open>
  Claim C6, as amended. \<open>ann\<close> and \<open>exact_search\<close> take the length of the query vector from
  the query array and never compare it with \<open>self->dim\<close>: whatever the two are, when
  the method of \<open>Mrpt\<close> returns, each function returns its arrays of \<open>k\<close> cells (the
  values the method stored, then the cells nothing was stored in); the outcome does not
  depend on the field \<open>dim\<close>, and neither function raises a Python exception.
\<close>

theorem query_length_not_checked:
  assumes "ix_ptr self = Some m" and "shape v = [d]" and "0 \<le> k" and "0 \<le> ix_n self"
    and "query m (take d (cells v)) k elect (rd \<noteq> 0) = Some (ws, ds)"
    and "exact_knn m (take d (cells v)) k (map int [0..<nat (ix_n self)]) (ix_n self) (rd \<noteq> 0) =
           Some (ws', ds')"
    and "length ws \<le> nat k" and "length ds \<le> nat k"
    and "length ws' \<le> nat k" and "length ds' \<le> nat k"
  shows "ann query self v k elect rd =
           Inr (if rd \<noteq> 0 then
                  Tuple \<lparr>type_num = PyArray_INT, shape = [nat k],
                          cells = map Some ws @ replicate (nat k - length ws) None\<rparr>
                        \<lparr>type_num = PyArray_FLOAT, shape = [nat k],
                          cells = map Some ds @ replicate (nat k - length ds) None\<rparr>
                else
                  Array \<lparr>type_num = PyArray_INT, shape = [nat k],
                          cells = map Some ws @ replicate (nat k - length ws) None\<rparr>) \<and>
         exact_search exact_knn self v k rd =
           Inr (if rd \<noteq> 0 then
                  Tuple \<lparr>type_num = PyArray_INT, shape = [nat k],
                          cells = map Some ws' @ replicate (nat k - length ws') None\<rparr>
                        \<lparr>type_num = PyArray_FLOAT, shape = [nat k],
                          cells = map Some ds' @ replicate (nat k - length ds') None\<rparr>
                else
                  Array \<lparr>type_num = PyArray_INT, shape = [nat k],
                          cells = map Some ws' @ replicate (nat k - length ws') None\<rparr>) \<and>
         ann query (self\<lparr>ix_dim := d'\<rparr>) v k elect rd = ann query self v k elect rd \<and>
         exact_search exact_knn (self\<lparr>ix_dim := d'\<rparr>) v k rd = exact_search exact_knn self v k rd \<and>
         ann query self v k elect rd \<noteq> Inl (PyExc_ValueError s) \<and>
         ann query self v k elect rd \<noteq> Inl (PyExc_IOError s) \<and>
         exact_search exact_knn self v k rd \<noteq> Inl (PyExc_ValueError s) \<and>
         exact_search exact_knn self v k rd \<noteq> Inl (PyExc_IOError s)"
proof -
  let ?q = "\<lambda>wd. case ix_ptr self of None \<Rightarrow> None
                  | Some m \<Rightarrow> query m (take d (cells v)) k elect wd"
  let ?e = "\<lambda>wd. case ix_ptr self of None \<Rightarrow> None
                  | Some m \<Rightarrow> exact_knn m (take d (cells v)) k
                       (map int [0..<nat (ix_n self)]) (ix_n self) wd"
  have cq: "?q (rd \<noteq> 0) = Some (ws, ds)" using assms(1,5) by simp
  have ce: "?e (rd \<noteq> 0) = Some (ws', ds')" using assms(1,6) by simp
  have lq: "length ws \<le> nat k" "rd \<noteq> 0 \<longrightarrow> length ds \<le> nat k" using assms(7,8) by simp_all
  have le: "length ws' \<le> nat k" "rd \<noteq> 0 \<longrightarrow> length ds' \<le> nat k" using assms(9,10) by simp_all
  have aq: "ann query self v k elect rd = one_query ?q k rd"
    using assms(2) by (simp add: ann_def)
  have ae: "exact_search exact_knn self v k rd = one_query ?e k rd"
    using assms(2,4) by (simp add: exact_search_def)
  note 1 = one_query_k_cells [of k ?q rd ws ds, OF assms(3) cq lq, folded aq]
  note 2 = one_query_k_cells [of k ?e rd ws' ds', OF assms(3) ce le, folded ae]
  have f: "ix_ptr (self\<lparr>ix_dim := d'\<rparr>) = ix_ptr self"
    "ix_n (self\<lparr>ix_dim := d'\<rparr>) = ix_n self" by simp_all
  have 3: "ann query (self\<lparr>ix_dim := d'\<rparr>) v k elect rd = ann query self v k elect rd"
    unfolding ann_def f by (rule refl)
  have 4: "exact_search exact_knn (self\<lparr>ix_dim := d'\<rparr>) v k rd =
      exact_search exact_knn self v k rd"
    unfolding exact_search_def f by (rule refl)
  from 1 2 3 4 ann_no_exception [of query self v k elect rd s]
    exact_search_no_exception [of exact_knn self v k rd s]
  show ?thesis by (intro conjI) (erule conjunct1 conjunct2 | assumption)+
qed

text \<open>
  The theorem for an index of dimensionality 2, a query vector of length 3 and \<open>k = 2\<close>,
  with distances asked for; each method stores one index and one distance.
\<close>

theorem query_length_not_checked_witness:
  "ix_dim \<lparr>ix_ptr = Some (), ix_data = None, ix_mmap = False, ix_n = 4, ix_dim = 2\<rparr> = 2 \<and>
   shape \<lparr>type_num = PyArray_FLOAT, shape = [3], cells = [1, 2, 3 :: float]\<rparr> = [3] \<and>
   ann (\<lambda>m q k elect wd. Some ([0], [5]))
      \<lparr>ix_ptr = Some (), ix_data = None, ix_mmap = False, ix_n = 4, ix_dim = 2\<rparr>
      \<lparr>type_num = PyArray_FLOAT, shape = [3], cells = [1, 2, 3]\<rparr> 2 1 1 =
     Inr (Tuple \<lparr>type_num = PyArray_INT, shape = [2], cells = [Some 0, None]\<rparr>
                \<lparr>type_num = PyArray_FLOAT, shape = [2], cells = [Some 5, None]\<rparr>) \<and>
   exact_search (\<lambda>m q k idx n wd. Some ([3], [6]))
      \<lparr>ix_ptr = Some (), ix_data = None, ix_mmap = False, ix_n = 4, ix_dim = 2\<rparr>
      \<lparr>type_num = PyArray_FLOAT, shape = [3], cells = [1, 2, 3]\<rparr> 2 1 =
     Inr (Tuple \<lparr>type_num = PyArray_INT, shape = [2], cells = [Some 3, None]\<rparr>
                \<lparr>type_num = PyArray_FLOAT, shape = [2], cells = [Some 6, None]\<rparr>)"
proof -
  let ?self = "\<lparr>ix_ptr = Some (), ix_data = None, ix_mmap = False, ix_n = 4, ix_dim = 2\<rparr>"
  let ?v = "\<lparr>type_num = PyArray_FLOAT, shape = [3], cells = [1, 2, 3 :: float]\<rparr>"
  let ?query = "\<lambda>(m::unit) (q::float list) (k::int) (elect::int) (wd::bool).
                  Some ([0 :: int], [5 :: float])"
  let ?exact_knn = "\<lambda>(m::unit) (q::float list) (k::int) (idx::int list) (n::int) (wd::bool).
                  Some ([3 :: int], [6 :: float])"
  have h: "ix_ptr ?self = Some ()" "shape ?v = [3]" "(0::int) \<le> 2" "0 \<le> ix_n ?self"
    "?query () (take 3 (cells ?v)) 2 1 ((1::int) \<noteq> 0) = Some ([0], [5])"
    "?exact_knn () (take 3 (cells ?v)) 2 (map int [0..<nat (ix_n ?self)]) (ix_n ?self)
       ((1::int) \<noteq> 0) = Some ([3], [6])"
    "length [0 :: int] \<le> nat 2" "length [5 :: float] \<le> nat 2"
    "length [3 :: int] \<le> nat 2" "length [6 :: float] \<le> nat 2"
    by simp_all
  from query_length_not_checked [of ?self "()" ?v 3 2 ?query 1 1 "[0]" "[5]" ?exact_knn "[3]" "[6]", OF h]
  show ?thesis by (simp add: numeral_2_eq_2)
qed

text \<open>
  Claim C6 as stated fails: for an index with \<open>dim = 2\<close> and a query vector of length 3,
  both functions return a result.
\<close>

theorem query_length_counterexample:
  "ix_dim \<lparr>ix_ptr = Some (), ix_data = None, ix_mmap = False, ix_n = 4, ix_dim = 2\<rparr> = 2 \<and>
   length (cells \<lparr>type_num = PyArray_FLOAT, shape = [3], cells = [1, 2, 3 :: float]\<rparr>) = 3 \<and>
   ann (\<lambda>m q k elect wd. Some ([0], []))
      \<lparr>ix_ptr = Some (), ix_data = None, ix_mmap = False, ix_n = 4, ix_dim = 2\<rparr>
      \<lparr>type_num = PyArray_FLOAT, shape = [3], cells = [1, 2, 3]\<rparr> 1 1 0 =
     Inr (Array \<lparr>type_num = PyArray_INT, shape = [1], cells = [Some 0]\<rparr>) \<and>
   exact_search (\<lambda>m q k idx n wd. Some (take (nat k) idx, []))
      \<lparr>ix_ptr = Some (), ix_data = None, ix_mmap = False, ix_n = 4, ix_dim = 2\<rparr>
      \<lparr>type_num = PyArray_FLOAT, shape = [3], cells = [1, 2, 3]\<rparr> 1 0 =
     Inr (Array \<lparr>type_num = PyArray_INT, shape = [1], cells = [Some 0]\<rparr>)"
  by (simp add: ann_def exact_search_def one_query_def PyArray_SimpleNew_def store_def
      numeral_eq_Suc upt_rec)

subsection \<open>Construction\<close>

lemma Mrpt_init_array:
  "Mrpt_init os Mrpt_ctor self (PyArray arr) n dimen depth n_trees density mmap =
     (case Mrpt_ctor (cells arr) dimen n n_trees depth density of
        None \<Rightarrow> Inl Undefined_Behaviour
      | Some m \<Rightarrow> Inr (self\<lparr>ix_n := n, ix_dim := dimen, ix_ptr := Some m\<rparr>))"
  by (simp add: Mrpt_init_def)


text \<open>
  Claim C7, as amended. \<open>Mrpt_init\<close> does not look at \<open>n_trees\<close>, \<open>depth\<close> or \<open>density\<close>:
  given an array and a constructor of \<open>Mrpt\<close> that returns, it succeeds and the index holds
  the object the constructor made; and whether it raises \<open>ValueError\<close> or \<open>IOError\<close> (which
  it does for a path only) does not depend on the three parameters or on the constructor.
\<close>

theorem init_parameters_not_validated:
  fixes Mrpt_ctor ctor' :: "float list \<Rightarrow> int \<Rightarrow> int \<Rightarrow> int \<Rightarrow> int \<Rightarrow> float \<Rightarrow> 'm option"
  shows
  "(Mrpt_ctor (cells arr) dimen n n_trees depth density = Some m \<longrightarrow>
      Mrpt_init os Mrpt_ctor self (PyArray arr) n dimen depth n_trees density mmap =
        Inr (self\<lparr>ix_n := n, ix_dim := dimen, ix_ptr := Some m\<rparr>)) \<and>
   (Mrpt_init os Mrpt_ctor self py_data n dimen depth n_trees density mmap = Inl (PyExc_ValueError s) \<longleftrightarrow>
    Mrpt_init os ctor' self py_data n dimen depth' n_trees' density' mmap = Inl (PyExc_ValueError s)) \<and>
   (Mrpt_init os Mrpt_ctor self py_data n dimen depth n_trees density mmap = Inl (PyExc_IOError s) \<longleftrightarrow>
    Mrpt_init os ctor' self py_data n dimen depth' n_trees' density' mmap = Inl (PyExc_IOError s))"
proof -
  define load :: "error + 'm mrptIndex \<times> float list" where
    "load = (case py_data of
        PyString file \<Rightarrow>
          (case os_stat os file of
             Inl msg \<Rightarrow> Inl (PyExc_IOError msg)
           | Inr st_size \<Rightarrow>
               if st_size \<noteq> (4 * dimen * n) mod 2 ^ 32
               then Inl (PyExc_ValueError ''Size of the input is not N x dim'')
               else
                 case (if mmap \<noteq> 0 then read_mmap os file n dimen
                       else read_memory os file n dimen) of
                   Inl e \<Rightarrow> Inl e
                 | Inr None \<Rightarrow> Inl (PyExc_IOError
                     ''Unable to read data from file or allocate memory for it'')
                 | Inr (Some data) \<Rightarrow>
                     Inr (self\<lparr>ix_mmap := mmap \<noteq> 0, ix_data := Some data\<rparr>, data))
      | PyArray arr \<Rightarrow> Inr (self, cells arr))"
  have st: "Mrpt_init os ctor self py_data n dimen dp nt dens mmap =
         (case load of
            Inl e \<Rightarrow> Inl e
          | Inr (self', data) \<Rightarrow>
              (case ctor data dimen n nt dp dens of
                 None \<Rightarrow> Inl Undefined_Behaviour
               | Some m \<Rightarrow> Inr (self'\<lparr>ix_n := n, ix_dim := dimen, ix_ptr := Some m\<rparr>)))"
    for ctor :: "float list \<Rightarrow> int \<Rightarrow> int \<Rightarrow> int \<Rightarrow> int \<Rightarrow> float \<Rightarrow> 'm option" and nt dp dens
    unfolding Mrpt_init_def load_def Let_def
    by (simp split: py_data.split sum.split option.split)
  have exc: "Mrpt_init os ctor self py_data n dimen dp nt dens mmap = Inl e \<longleftrightarrow> load = Inl e"
    if "e \<noteq> Undefined_Behaviour"
    for ctor :: "float list \<Rightarrow> int \<Rightarrow> int \<Rightarrow> int \<Rightarrow> int \<Rightarrow> float \<Rightarrow> 'm option" and nt dp dens e
    unfolding st using that by (auto split: sum.splits prod.splits option.splits)
  have 1: "Mrpt_ctor (cells arr) dimen n n_trees depth density = Some m \<longrightarrow>
      Mrpt_init os Mrpt_ctor self (PyArray arr) n dimen depth n_trees density mmap =
        Inr (self\<lparr>ix_n := n, ix_dim := dimen, ix_ptr := Some m\<rparr>)"
    by (simp add: Mrpt_init_array)
  show ?thesis using 1 exc [of "PyExc_ValueError s"] exc [of "PyExc_IOError s"] by simp
qed

text \<open>The theorem for a constructor that keeps \<open>n_trees\<close>, \<open>depth\<close> and \<open>density\<close>.\<close>

theorem init_parameters_not_validated_witness:
  "Mrpt_init \<lparr>os_stat = (\<lambda>f. Inl ''No such file or directory''), os_fopen = (\<lambda>f. None),
              os_mmap = (\<lambda>f len. None)\<rparr>
      (\<lambda>X dimen n n_trees depth density. Some (n_trees, depth, density))
      Mrpt_new (PyArray \<lparr>type_num = PyArray_FLOAT, shape = [2, 2], cells = [0, 0, 1, 1]\<rparr>)
      2 2 3 5 1 0 =
     Inr (Mrpt_new\<lparr>ix_n := 2, ix_dim := 2, ix_ptr := Some (5, 3, 1)\<rparr>)"
  using init_parameters_not_validated
    [of "\<lambda>X dimen n n_trees depth density. Some (n_trees, depth, density)"
        "\<lparr>type_num = PyArray_FLOAT, shape = [2, 2], cells = [0, 0, 1, 1]\<rparr>" 2 2 5 3 1 "(5, 3, 1)"]
  by simp

text \<open>
  Claim C7 as stated fails: with \<open>n_trees = 0\<close>, \<open>depth = -1\<close> and \<open>density = 2\<close>, and
  an array as data, \<open>Mrpt_init\<close> returns 0 and the index is made.
\<close>

theorem init_invalid_parameters_counterexample:
  "(0::int) \<le> 0 \<and> (- 1 :: int) < 0 \<and> \<not> ((2 :: float) \<le> 1) \<and>
   Mrpt_init \<lparr>os_stat = (\<lambda>f. Inl ''No such file or directory''), os_fopen = (\<lambda>f. None),
              os_mmap = (\<lambda>f len. None)\<rparr>
      (\<lambda>X dimen n n_trees depth density. Some (n_trees, depth, density))
      Mrpt_new (PyArray \<lparr>type_num = PyArray_FLOAT, shape = [2, 2], cells = [0, 0, 1, 1]\<rparr>)
      2 2 (- 1) 0 2 0 =
     Inr \<lparr>ix_ptr = Some (0, - 1, 2), ix_data = None, ix_mmap = False, ix_n = 2, ix_dim = 2\<rparr>"
  by (simp add: Mrpt_init_def Mrpt_new_def)

subsection \<open>Exact search\<close>

lemma k_smallest_of_sort_key:
  fixes f :: "'a \<Rightarrow> 'b :: linorder" and k :: nat
  assumes "inj_on f (set xs)" and "distinct xs"
  defines "ys \<equiv> take k (sort_key f xs)"
  shows "length ys = min k (length xs)"
    and "set ys \<subseteq> set xs"
    and "sorted_wrt (\<lambda>i j. f i < f j) ys"
    and "\<forall>i\<in>set ys. \<forall>j\<in>set xs - set ys. f i < f j"
proof -
  let ?s = "sort_key f xs"
  show "length ys = min k (length xs)" by (simp add: ys_def)
  show "set ys \<subseteq> set xs" using set_take_subset [of k ?s] by (simp add: ys_def)
  have d: "distinct (map f ?s)"
    using assms(1,2) by (simp add: distinct_map)
  have "sorted (map f ?s)" by simp
  with d have "sorted_wrt (<) (map f ?s)" by (simp add: strict_sorted_iff)
  then have s: "sorted_wrt (\<lambda>i j. f i < f j) ?s" by (simp add: sorted_wrt_map)
  then have "sorted_wrt (\<lambda>i j. f i < f j) (take k ?s @ drop k ?s)" by simp
  then have app: "sorted_wrt (\<lambda>i j. f i < f j) (take k ?s)"
      "\<forall>i\<in>set (take k ?s). \<forall>j\<in>set (drop k ?s). f i < f j"
    unfolding sorted_wrt_append by auto
  show "sorted_wrt (\<lambda>i j. f i < f j) ys" using app(1) by (simp add: ys_def)
  have "set xs = set (take k ?s) \<union> set (drop k ?s)"
    using set_append [of "take k ?s" "drop k ?s"] by simp
  then show "\<forall>i\<in>set ys. \<forall>j\<in>set xs - set ys. f i < f j"
    using app(2) by (auto simp: ys_def)
qed


text \<open>
  Claim C1, for \<open>exact_search\<close> over the engine of the specification and a query vector
  (an array of one dimension). For \<open>1 \<le> k \<le> n\<close> the function returns an index array of
  exactly \<open>k\<close> written cells; the indices are points of the dataset, they are listed in
  strictly ascending order of the pair (squared distance to the query, index), that is by
  ascending distance with ties broken by ascending index, and every point that is not
  listed comes after every listed one in that order.
\<close>

theorem exact_search_k_nearest:
  assumes "ix_ptr self = Some X" and "shape v = [d]" and "1 \<le> k" and "k \<le> ix_n self"
  shows "\<exists>js r. exact_search exact_knn_spec self v k rd = Inr r \<and>
     nearest_of r = \<lparr>type_num = PyArray_INT, shape = [nat k], cells = map Some js\<rparr> \<and>
     length js = nat k \<and> set js \<subseteq> {0..<ix_n self} \<and>
     sorted_wrt (\<lambda>i j. (sq_distance (take d (cells v)) (point X i), i) <
                       (sq_distance (take d (cells v)) (point X j), j)) js \<and>
     (\<forall>i\<in>set js. \<forall>j\<in>{0..<ix_n self} - set js.
        (sq_distance (take d (cells v)) (point X i), i) <
        (sq_distance (take d (cells v)) (point X j), j))"
proof -
  let ?q = "take d (cells v)"
  let ?key = "\<lambda>i. (sq_distance ?q (point X i), i)"
  let ?idx = "map int [0..<nat (ix_n self)]"
  let ?js = "take (nat k) (sort_key ?key ?idx)"
  let ?ds = "if rd \<noteq> 0 then map (\<lambda>i. sq_distance ?q (point X i)) ?js else []"
  let ?call = "\<lambda>wd. case ix_ptr self of None \<Rightarrow> None
      | Some m \<Rightarrow> exact_knn_spec m ?q k ?idx (ix_n self) wd"
  have n: "0 \<le> ix_n self" "0 \<le> k" using assms(3,4) by auto
  have inj: "inj_on ?key (set ?idx)" by (rule inj_onI) simp
  have dist: "distinct ?idx" by (simp add: distinct_map inj_on_def)
  have idx: "set ?idx = {0..<ix_n self}"
  proof (intro set_eqI iffI)
    fix x assume "x \<in> {0..<ix_n self}"
    then have "x = int (nat x)" "nat x < nat (ix_n self)" by auto
    then show "x \<in> set ?idx" by (metis (no_types) atLeast0LessThan imageI lessThan_iff set_map set_upt)
  qed auto
  note sel = k_smallest_of_sort_key [OF inj dist, of "nat k"]
  have len: "length ?js = nat k" using sel(1) assms(4) n by simp
  have c: "?call (rd \<noteq> 0) = Some (?js, ?ds)"
    using assms(1) by (simp add: exact_knn_spec_def Let_def)
  have e: "exact_search exact_knn_spec self v k rd = one_query ?call k rd"
    using assms(2) n(1) by (simp add: exact_search_def)
  have "length ?js \<le> nat k" "rd \<noteq> 0 \<longrightarrow> length ?ds \<le> nat k" using len by simp_all
  from one_query_k_cells [of k ?call rd ?js ?ds, OF n(2) c this] e len
  obtain r where r: "exact_search exact_knn_spec self v k rd = Inr r"
    "nearest_of r = \<lparr>type_num = PyArray_INT, shape = [nat k], cells = map Some ?js\<rparr>"
    by (cases "rd = 0") (simp_all add: nearest_of_def)
  from r len sel(2,3,4) idx show ?thesis by blast
qed


text \<open>
  The theorem for the four corners of the unit square, a query at the corner 0 and \<open>k = 2\<close>:
  the corners 1 and 2 are equally far, and the smaller index is returned.
\<close>

theorem exact_search_k_nearest_witness:
  "(1::int) \<le> 2 \<and>
   (2::int) \<le> ix_n \<lparr>ix_ptr = Some \<lparr>X_data = [0, 0, 1, 0, 0, 1, 1, 1], X_dim = 2, X_n = 4\<rparr>,
                     ix_data = None, ix_mmap = False, ix_n = 4, ix_dim = 2\<rparr> \<and>
   (\<exists>js r. exact_search exact_knn_spec
        \<lparr>ix_ptr = Some \<lparr>X_data = [0, 0, 1, 0, 0, 1, 1, 1], X_dim = 2, X_n = 4\<rparr>,
          ix_data = None, ix_mmap = False, ix_n = 4, ix_dim = 2\<rparr>
        \<lparr>type_num = PyArray_FLOAT, shape = [2], cells = [0, 0]\<rparr> 2 0 = Inr r \<and>
      nearest_of r = \<lparr>type_num = PyArray_INT, shape = [nat 2], cells = map Some js\<rparr> \<and>
      length js = nat 2 \<and> set js \<subseteq> {0..<4}) \<and>
   exact_search exact_knn_spec
        \<lparr>ix_ptr = Some \<lparr>X_data = [0, 0, 1, 0, 0, 1, 1, 1], X_dim = 2, X_n = 4\<rparr>,
          ix_data = None, ix_mmap = False, ix_n = 4, ix_dim = 2\<rparr>
        \<lparr>type_num = PyArray_FLOAT, shape = [2], cells = [0, 0]\<rparr> 2 0 =
     Inr (Array \<lparr>type_num = PyArray_INT, shape = [2], cells = [Some 0, Some 1]\<rparr>)"
proof -
  let ?X = "\<lparr>X_data = [0, 0, 1, 0, 0, 1, 1, 1], X_dim = 2, X_n = 4\<rparr>"
  let ?self = "\<lparr>ix_ptr = Some ?X, ix_data = None, ix_mmap = False, ix_n = 4, ix_dim = 2\<rparr>"
  let ?v = "\<lparr>type_num = PyArray_FLOAT, shape = [2], cells = [0, 0 :: float]\<rparr>"
  have h: "ix_ptr ?self = Some ?X" "shape ?v = [2]" "(1::int) \<le> 2" "(2::int) \<le> ix_n ?self"
    by simp_all
  have p: "point ?X 0 = [0, 0]" "point ?X 1 = [1, 0]" "point ?X 2 = [0, 1]" "point ?X 3 = [1, 1]"
    by (simp_all add: point_def numeral_eq_Suc)
  have ev: "exact_search exact_knn_spec ?self ?v 2 0 =
     Inr (Array \<lparr>type_num = PyArray_INT, shape = [2], cells = [Some 0, Some 1]\<rparr>)"
    by (simp add: exact_search_def one_query_def PyArray_SimpleNew_def store_def
        exact_knn_spec_def sq_distance_def p upt_rec numeral_eq_Suc)
  from exact_search_k_nearest [OF h, of 0]
  have "\<exists>js r. exact_search exact_knn_spec ?self ?v 2 0 = Inr r \<and>
      nearest_of r = \<lparr>type_num = PyArray_INT, shape = [nat 2], cells = map Some js\<rparr> \<and>
      length js = nat 2 \<and> set js \<subseteq> {0..<4}"
    by (simp only: ndarray.simps mrptIndex.simps) blast
  with h(3,4) ev show ?thesis by (intro conjI)
qed

end
